theory Spec2Isabelle
  imports Main "HOL-Library.Word" "HOL-Library.Sublist"
begin

section \<open>JavaScript strings\<close>

text \<open>
  A JavaScript string is a sequence of UTF-16 code units. Payloads (the decoded QR text
  and everything cut out of it) are lists of 16-bit words. The fixed labels of the source
  (type names, action names, screen names, parameter keys) are plain ASCII literals and
  are kept as HOL strings.
\<close>

type_synonym code_unit = "16 word"
type_synonym jsstring = "code_unit list"

definition js :: "string \<Rightarrow> jsstring" where
  "js s = map of_char s"

text \<open>\<^verbatim>\<open>s.startsWith(p)\<close>\<close>

fun startsWith :: "jsstring \<Rightarrow> jsstring \<Rightarrow> bool" where
  "startsWith s [] = True"
| "startsWith [] (p # ps) = False"
| "startsWith (c # cs) (p # ps) = (c = p \<and> startsWith cs ps)"

text \<open>\<^verbatim>\<open>s.includes(p)\<close>: \<open>p\<close> occurs at some position of \<open>s\<close>.\<close>

fun includes_str :: "jsstring \<Rightarrow> jsstring \<Rightarrow> bool" where
  "includes_str [] p = startsWith [] p"
| "includes_str (c # cs) p = (startsWith (c # cs) p \<or> includes_str cs p)"

text \<open>
  \<^verbatim>\<open>s.split(sep)\<close> searches the next occurrence of the separator from the current
  position, emits the piece before it and goes on behind it; the rest of the string is
  the last piece. \<open>cut\<close> is one such search: the piece before the first occurrence and
  the rest behind it. An empty separator splits into single code units.
\<close>

fun cut :: "jsstring \<Rightarrow> jsstring \<Rightarrow> (jsstring \<times> jsstring) option" where
  "cut [] sep = (if sep = [] then Some ([], []) else None)"
| "cut (c # cs) sep =
     (if startsWith (c # cs) sep then Some ([], drop (length sep) (c # cs))
      else (case cut cs sep of None \<Rightarrow> None | Some (b, a) \<Rightarrow> Some (c # b, a)))"

lemma cut_shorter: "cut s sep = Some (b, a) \<Longrightarrow> sep \<noteq> [] \<Longrightarrow> length a < length s"
proof (induction s arbitrary: b a)
  case Nil
  then show ?case by simp
next
  case (Cons c cs)
  show ?case
  proof (cases "startsWith (c # cs) sep")
    case True
    with Cons.prems show ?thesis by auto
  next
    case False
    with Cons.prems obtain b' where "cut cs sep = Some (b', a)"
      by (auto split: option.splits)
    with Cons.IH Cons.prems(2) show ?thesis by fastforce
  qed
qed

function split :: "jsstring \<Rightarrow> jsstring \<Rightarrow> jsstring list" where
  "split s sep =
     (if sep = [] then map (\<lambda>c. [c]) s
      else (case cut s sep of None \<Rightarrow> [s] | Some (b, a) \<Rightarrow> b # split a sep))"
  by pat_completeness auto
termination
  by (relation "measure (\<lambda>(s, sep). length s)") (auto dest: cut_shorter)

declare split.simps [simp del]

text \<open>Array indexing \<^verbatim>\<open>parts[i]\<close>: \<open>None\<close> is \<^verbatim>\<open>undefined\<close>.\<close>

fun at :: "'a list \<Rightarrow> nat \<Rightarrow> 'a option" where
  "at [] i = None"
| "at (x # xs) 0 = Some x"
| "at (x # xs) (Suc i) = at xs i"

section \<open>The regular expression of the classifier\<close>

text \<open>
  \<^verbatim>\<open>/^https?:\/\/.+/i\<close> uses single characters and the dot, each once, optionally
  (\<^verbatim>\<open>?\<close>) or repeated (\<^verbatim>\<open>+\<close>). The pattern is anchored at the start and open at
  the end, so \<^verbatim>\<open>data.match(re)\<close> is truthy exactly when the pattern matches a prefix
  of the data.

  Under the \<^verbatim>\<open>i\<close> flag (without \<^verbatim>\<open>u\<close>) two code units match when their
  canonical forms agree. The canonical form is the upper-case mapping, except that a code
  unit from 128 on is never mapped below 128. The pattern holds ASCII characters only, so
  all it can observe of a code unit from 128 on is that its canonical form is not ASCII;
  \<open>canonicalize\<close> is exact below 128 and the identity above.

  The dot matches every code unit but the line terminators LF, CR, U+2028 and U+2029.
\<close>

datatype atom = Ch code_unit | Dot
datatype quant = Once | Optional | OneOrMore
type_synonym regex = "(atom \<times> quant) list"

definition canonicalize :: "code_unit \<Rightarrow> code_unit" where
  "canonicalize ch = (if 97 \<le> ch \<and> ch \<le> 122 then ch - 32 else ch)"

definition lineTerminator :: "code_unit \<Rightarrow> bool" where
  "lineTerminator ch = (ch = 0x0A \<or> ch = 0x0D \<or> ch = 0x2028 \<or> ch = 0x2029)"

fun atom_matches :: "bool \<Rightarrow> atom \<Rightarrow> code_unit \<Rightarrow> bool" where
  "atom_matches ignoreCase (Ch p) c =
     (if ignoreCase then canonicalize c = canonicalize p else c = p)"
| "atom_matches ignoreCase Dot c = (\<not> lineTerminator c)"

fun matches :: "bool \<Rightarrow> regex \<Rightarrow> jsstring \<Rightarrow> bool" where
  "matches ic [] s = True"
| "matches ic ((a, q) # r) [] = (q = Optional \<and> matches ic r [])"
| "matches ic ((a, Once) # r) (c # cs) = (atom_matches ic a c \<and> matches ic r cs)"
| "matches ic ((a, Optional) # r) (c # cs) =
     ((atom_matches ic a c \<and> matches ic r cs) \<or> matches ic r (c # cs))"
| "matches ic ((a, OneOrMore) # r) (c # cs) =
     (atom_matches ic a c \<and> (matches ic ((a, OneOrMore) # r) cs \<or> matches ic r cs))"

definition websitePattern :: regex where
  "websitePattern =
     [(Ch 104, Once), (Ch 116, Once), (Ch 116, Once), (Ch 112, Once), (Ch 115, Optional),
      (Ch 58, Once), (Ch 47, Once), (Ch 47, Once), (Dot, OneOrMore)]"

section \<open>The classifier (ScannerScreen.js, identifyDataType)\<close>

text \<open>
  The action labels are JavaScript strings: the one of the contact card holds the arrow
  U+2192, a single code unit.
\<close>

record data_info =
  type :: string
  action :: jsstring

definition identifyDataType :: "jsstring \<Rightarrow> data_info" where
  "identifyDataType data =
     (if matches True websitePattern data then
        \<lparr>type = ''Website'', action = js ''Open in browser''\<rparr>
      else if startsWith data (js ''tel:'') then
        \<lparr>type = ''Phone'', action = js ''Open dialer''\<rparr>
      else if startsWith data (js ''sms:'') then
        \<lparr>type = ''SMS'', action = js ''Open SMS app''\<rparr>
      else if startsWith data (js ''mailto:'') then
        \<lparr>type = ''Email'', action = js ''Open email client''\<rparr>
      else if startsWith data (js ''BEGIN:VCARD'') \<and> includes_str data (js ''END:VCARD'') then
        \<lparr>type = ''Contact vCard'', action = js ''Parse '' @ [0x2192] @ js '' add contact''\<rparr>
      else if startsWith data (js ''BEGIN:VEVENT'') \<and> includes_str data (js ''END:VEVENT'') then
        \<lparr>type = ''Calendar'', action = js ''Add event''\<rparr>
      else if startsWith data (js ''qrcodeapp://'') then
        \<lparr>type = ''App deep link'', action = js ''Navigate inside your app''\<rparr>
      else
        \<lparr>type = ''Text'', action = js ''Display content''\<rparr>)"

section \<open>Collaborators, effects and screen state\<close>

text \<open>
  The calls a screen makes to its collaborators are logged in the state, in call order:
  \<^verbatim>\<open>Linking.openURL(url)\<close>, \<^verbatim>\<open>navigation.navigate(screen, params)\<close> and
  \<^verbatim>\<open>Alert.alert(title, message)\<close>.
\<close>

datatype effect =
  OpenURL jsstring
| Navigate string "(string \<times> jsstring) list"
| Alert string string

datatype exn = TypeError | CollaboratorError

text \<open>
  What a handler meets outside while it runs. \<^verbatim>\<open>Linking.openURL\<close> is given the
  non-empty strings the classifier sends to it and does not throw on them: it returns a
  Promise, which rejects when nothing can open the URL (\<open>openURL_rejects\<close>).
  \<^verbatim>\<open>navigation.navigate\<close> may throw in the call itself, where \<^verbatim>\<open>try\<close>/\<^verbatim>\<open>catch\<close>
  sees it (\<open>navigate_throws\<close>). The clock gives \<^verbatim>\<open>Date.now()\<close> and
  \<^verbatim>\<open>new Date().toLocaleString()\<close>.
\<close>

record env =
  openURL_rejects :: "jsstring \<Rightarrow> bool"
  navigate_throws :: "string \<Rightarrow> bool"
  dateNow :: nat
  localeString :: string

record 'i scanned_data =
  data :: jsstring
  dataInfo :: 'i

text \<open>
  The \<^verbatim>\<open>useState\<close> cells both scanner screens share (the flash, history-modal and
  manual-input cells play no part in dispatch and are left out). The record holds the
  current value of each cell: a \<^verbatim>\<open>set...\<close> call updates it in program order. What a
  handler reads through a state constant of its render, such as \<^verbatim>\<open>isScanning\<close>, is
  not the cell but the value the cell had when that render ran; a handler takes it as an
  argument. \<open>pendingResets\<close> counts the \<^verbatim>\<open>setTimeout\<close> callbacks scheduled by a scan
  handler and not yet run; \<open>effects\<close> is the call log; \<open>unhandledRejections\<close> holds
  the URLs whose \<^verbatim>\<open>Linking.openURL\<close> Promise rejected with no handler attached.
\<close>

record 'i screen_state =
  isScanning :: bool
  showResultPage :: bool
  currentScannedData :: "'i scanned_data option"
  cameraKey :: nat
  pendingResets :: nat
  effects :: "effect list"
  unhandledRejections :: "jsstring list"

fun perform ::
  "env \<Rightarrow> effect \<Rightarrow> ('i, 'z) screen_state_scheme \<Rightarrow> exn + ('i, 'z) screen_state_scheme" where
  "perform e (OpenURL url) s =
     Inr (s\<lparr>effects := effects s @ [OpenURL url],
            unhandledRejections :=
              (if openURL_rejects e url then unhandledRejections s @ [url]
               else unhandledRejections s)\<rparr>)"
| "perform e (Navigate screen params) s =
     (if navigate_throws e screen then Inl CollaboratorError
      else Inr (s\<lparr>effects := effects s @ [Navigate screen params]\<rparr>))"
| "perform e (Alert title message) s = Inr (s\<lparr>effects := effects s @ [Alert title message]\<rparr>)"

text \<open>\<^verbatim>\<open>restartCamera\<close>, the same in both screens.\<close>

definition restartCamera :: "('i, 'z) screen_state_scheme \<Rightarrow> ('i, 'z) screen_state_scheme" where
  "restartCamera s = s\<lparr>cameraKey := cameraKey s + 1, isScanning := False\<rparr>"

text \<open>
  The callback both scan handlers pass to \<^verbatim>\<open>setTimeout(..., 100)\<close>. It can only run
  when one has been scheduled.
\<close>

definition resetTimerFires :: "('i, 'z) screen_state_scheme \<Rightarrow> ('i, 'z) screen_state_scheme" where
  "resetTimerFires s =
     (if pendingResets s = 0 then s
      else s\<lparr>isScanning := False, pendingResets := pendingResets s - 1\<rparr>)"

section \<open>The general scanner (ScannerScreen.js)\<close>

record history_item =
  item_id :: nat
  item_data :: jsstring
  item_type :: string
  item_timestamp :: string

record scanner_state = "data_info screen_state" +
  scanHistory :: "history_item list"

definition initialState :: scanner_state where
  "initialState =
     \<lparr>isScanning = False, showResultPage = False, currentScannedData = None, cameraKey = 0,
      pendingResets = 0, effects = [], unhandledRejections = [], scanHistory = []\<rparr>"

text \<open>
  \<^verbatim>\<open>handleDeepLinkNavigation\<close>, in two parts: the path and the branch taken
  (\<open>deepLinkTarget\<close>: the collaborator call chosen, \<open>None\<close> for the scanner branch,
  which calls nothing), and the call itself inside \<^verbatim>\<open>try\<close>/\<^verbatim>\<open>catch\<close>.
\<close>

definition deepLinkPath :: "jsstring \<Rightarrow> jsstring" where
  "deepLinkPath deepLinkUrl =
     (if includes_str deepLinkUrl (js ''://'') then
        (let parts = split deepLinkUrl (js ''://'')
         in if length parts > 1 then parts ! 1 else [])
      else deepLinkUrl)"

definition deepLinkTarget :: "jsstring \<Rightarrow> effect option" where
  "deepLinkTarget deepLinkUrl =
     (let path = deepLinkPath deepLinkUrl in
      if includes_str path (js ''user/'') then
        (case at (split path (js ''user/'')) 1 of
           Some userId \<Rightarrow>
             if userId \<noteq> [] then Some (Navigate ''UserDetail'' [(''id'', userId)])
             else Some (Navigate ''Users'' [])
         | None \<Rightarrow> Some (Navigate ''Users'' []))
      else if includes_str path (js ''users'') then Some (Navigate ''Users'' [])
      else if includes_str path (js ''scanner'') then None
      else if includes_str path (js ''home'') then Some (Navigate ''Home'' [])
      else if includes_str path (js ''profile'') then Some (Navigate ''Users'' [])
      else if includes_str path (js ''dashboard'') then Some (Navigate ''Home'' [])
      else Some (Navigate ''Home'' []))"

definition handleDeepLinkNavigation :: "env \<Rightarrow> jsstring \<Rightarrow> scanner_state \<Rightarrow> scanner_state" where
  "handleDeepLinkNavigation e deepLinkUrl s =
     (case deepLinkTarget deepLinkUrl of
        None \<Rightarrow> s
      | Some call \<Rightarrow>
          (case perform e call s of
             Inr s' \<Rightarrow> s'
           | Inl error \<Rightarrow>
               s\<lparr>showResultPage := True,
                 currentScannedData :=
                   Some \<lparr>data = deepLinkUrl,
                         dataInfo = \<lparr>type = ''App deep link'', action = js ''Navigation failed''\<rparr>\<rparr>\<rparr>))"

definition executeAction_try ::
  "env \<Rightarrow> jsstring \<Rightarrow> data_info \<Rightarrow> scanner_state \<Rightarrow> exn + scanner_state" where
  "executeAction_try e d info s =
     (if type info = ''Website'' then perform e (OpenURL d) s
      else if type info = ''Phone'' then perform e (OpenURL d) s
      else if type info = ''SMS'' then perform e (OpenURL d) s
      else if type info = ''Email'' then perform e (OpenURL d) s
      else if type info = ''App deep link'' then Inr (handleDeepLinkNavigation e d s)
      else if type info = ''Contact vCard'' then
        Inr (s\<lparr>showResultPage := True, currentScannedData := Some \<lparr>data = d, dataInfo = info\<rparr>\<rparr>)
      else if type info = ''Calendar'' then
        Inr (s\<lparr>showResultPage := True, currentScannedData := Some \<lparr>data = d, dataInfo = info\<rparr>\<rparr>)
      else Inr s)"

definition executeAction :: "env \<Rightarrow> jsstring \<Rightarrow> data_info \<Rightarrow> scanner_state \<Rightarrow> scanner_state" where
  "executeAction e d info s =
     (case executeAction_try e d info s of
        Inr s' \<Rightarrow> s'
      | Inl error \<Rightarrow>
          s\<lparr>showResultPage := True,
            currentScannedData :=
              Some \<lparr>data = d, dataInfo = \<lparr>type = ''Error'', action = js ''Could not process''\<rparr>\<rparr>\<rparr>)"

text \<open>
  \<^verbatim>\<open>executeAction\<close> does not await the Promise of \<^verbatim>\<open>Linking.openURL\<close> and attaches
  no handler to it, so its \<^verbatim>\<open>catch\<close> sees a throw of the call only.

  \<^verbatim>\<open>handleScannedData\<close>: the argument \<open>isScanning_rendered\<close> is the constant
  \<^verbatim>\<open>isScanning\<close> the handler closes over, the value of the cell in the render that
  created the handler; \<open>d\<close> is \<^verbatim>\<open>event.nativeEvent.codeStringValue\<close>. The history
  update is functional (\<^verbatim>\<open>prev => ...\<close>) and works on the current cell;
  \<^verbatim>\<open>prev.slice(0, 49)\<close> is \<open>take 49\<close>. After a re-render in state \<open>s\<close> the mounted
  handler is \<open>handleScannedData e (isScanning s)\<close>.
\<close>

definition handleScannedData ::
  "env \<Rightarrow> bool \<Rightarrow> jsstring \<Rightarrow> scanner_state \<Rightarrow> scanner_state" where
  "handleScannedData e isScanning_rendered d s =
     (if isScanning_rendered then s
      else
        (let s1 = s\<lparr>isScanning := True\<rparr>;
             info = identifyDataType d;
             newHistoryItem =
               \<lparr>item_id = dateNow e, item_data = d, item_type = type info,
                item_timestamp = localeString e\<rparr>;
             s2 = s1\<lparr>scanHistory := newHistoryItem # take 49 (scanHistory s1)\<rparr>;
             s3 =
               (if type info = ''Website'' \<or> type info = ''Phone'' \<or> type info = ''SMS'' \<or>
                   type info = ''Email'' \<or> type info = ''App deep link''
                then executeAction e d info s2
                else s2\<lparr>showResultPage := True,
                        currentScannedData := Some \<lparr>data = d, dataInfo = info\<rparr>\<rparr>)
         in s3\<lparr>pendingResets := pendingResets s3 + 1\<rparr>))"

section \<open>The app-only scanner (AppOnlyScannerScreen.js)\<close>

record app_data_info = data_info +
  isValid :: bool

record app_history_item = history_item +
  item_isValid :: bool

record app_scanner_state = "app_data_info screen_state" +
  appScanHistory :: "app_history_item list"

definition initialAppState :: app_scanner_state where
  "initialAppState =
     \<lparr>isScanning = False, showResultPage = False, currentScannedData = None, cameraKey = 0,
      pendingResets = 0, effects = [], unhandledRejections = [], appScanHistory = []\<rparr>"

definition validateAppQRCode :: "jsstring \<Rightarrow> app_data_info" where
  "validateAppQRCode d =
     (if startsWith d (js ''qrcodeapp://'') then
        \<lparr>type = ''App Deep Link'', action = js ''Navigate within app'', isValid = True\<rparr>
      else
        \<lparr>type = ''External/Invalid'', action = js ''Not app-related'', isValid = False\<rparr>)"

text \<open>
  \<^verbatim>\<open>handleAppDeepLinkNavigation\<close>, in the same two parts. The path is
  \<^verbatim>\<open>deepLinkUrl.split('qrcodeapp://')[1]\<close>; when it is \<^verbatim>\<open>undefined\<close>,
  \<^verbatim>\<open>path.includes\<close> throws a TypeError inside the \<^verbatim>\<open>try\<close>.
\<close>

definition appDeepLinkTarget :: "jsstring \<Rightarrow> exn + effect" where
  "appDeepLinkTarget deepLinkUrl =
     (case at (split deepLinkUrl (js ''qrcodeapp://'')) 1 of
        None \<Rightarrow> Inl TypeError
      | Some path \<Rightarrow>
          if includes_str path (js ''user/'') then
            (case at (split path (js ''user/'')) 1 of
               Some userId \<Rightarrow>
                 if userId \<noteq> [] then Inr (Navigate ''UserDetail'' [(''id'', userId)])
                 else Inr (Navigate ''Users'' [])
             | None \<Rightarrow> Inr (Navigate ''Users'' []))
          else if includes_str path (js ''users'') then Inr (Navigate ''Users'' [])
          else if includes_str path (js ''scanner'') then
            Inr (Alert ''App Deep Link'' ''Already on app scanner screen'')
          else if includes_str path (js ''home'') then Inr (Navigate ''Home'' [])
          else Inr (Navigate ''Home'' []))"

definition handleAppDeepLinkNavigation ::
  "env \<Rightarrow> jsstring \<Rightarrow> app_scanner_state \<Rightarrow> app_scanner_state" where
  "handleAppDeepLinkNavigation e deepLinkUrl s =
     (case (case appDeepLinkTarget deepLinkUrl of
              Inl error \<Rightarrow> Inl error
            | Inr call \<Rightarrow> perform e call s) of
        Inr s' \<Rightarrow> s'
      | Inl error \<Rightarrow>
          s\<lparr>showResultPage := True,
            currentScannedData :=
              Some \<lparr>data = deepLinkUrl,
                    dataInfo = \<lparr>type = ''App Deep Link Error'', action = js ''Navigation failed'',
                                isValid = False\<rparr>\<rparr>\<rparr>)"

text \<open>
  \<^verbatim>\<open>handleAppOnlyScannedData\<close>, with the constant \<^verbatim>\<open>isScanning\<close> of its render as
  in the general scanner.
\<close>

definition handleAppOnlyScannedData ::
  "env \<Rightarrow> bool \<Rightarrow> jsstring \<Rightarrow> app_scanner_state \<Rightarrow> app_scanner_state" where
  "handleAppOnlyScannedData e isScanning_rendered d s =
     (if isScanning_rendered then s
      else
        (let s1 = s\<lparr>isScanning := True\<rparr>;
             validation = validateAppQRCode d;
             newHistoryItem =
               \<lparr>item_id = dateNow e, item_data = d, item_type = type validation,
                item_timestamp = localeString e, item_isValid = isValid validation\<rparr>;
             s2 = s1\<lparr>appScanHistory := newHistoryItem # take 49 (appScanHistory s1)\<rparr>;
             s3 =
               (if isValid validation then handleAppDeepLinkNavigation e d s2
                else s2\<lparr>showResultPage := True,
                        currentScannedData :=
                          Some \<lparr>data = d,
                                dataInfo = \<lparr>type = ''Rejected'',
                                            action = js ''This QR code is not app-related'',
                                            isValid = False\<rparr>\<rparr>\<rparr>)
         in s3\<lparr>pendingResets := pendingResets s3 + 1\<rparr>))"

section \<open>Runs of scans\<close>

text \<open>
  A sequence of scans, each followed by its reset timer running and the screen
  re-rendering before the next decode event arrives: the scans are separated by more
  than the suppression window, and each is handled by the handler of the latest render.
\<close>

fun spacedScans :: "(env \<times> jsstring) list \<Rightarrow> scanner_state \<Rightarrow> scanner_state" where
  "spacedScans [] s = s"
| "spacedScans ((e, d) # rest) s =
     spacedScans rest (resetTimerFires (handleScannedData e (isScanning s) d s))"

fun spacedAppScans :: "(env \<times> jsstring) list \<Rightarrow> app_scanner_state \<Rightarrow> app_scanner_state" where
  "spacedAppScans [] s = s"
| "spacedAppScans ((e, d) # rest) s =
     spacedAppScans rest (resetTimerFires (handleAppOnlyScannedData e (isScanning s) d s))"

definition historyItemOf :: "env \<times> jsstring \<Rightarrow> history_item" where
  "historyItemOf scan =
     \<lparr>item_id = dateNow (fst scan), item_data = snd scan,
      item_type = type (identifyDataType (snd scan)), item_timestamp = localeString (fst scan)\<rparr>"

definition appHistoryItemOf :: "env \<times> jsstring \<Rightarrow> app_history_item" where
  "appHistoryItemOf scan =
     \<lparr>item_id = dateNow (fst scan), item_data = snd scan,
      item_type = type (validateAppQRCode (snd scan)), item_timestamp = localeString (fst scan),
      item_isValid = isValid (validateAppQRCode (snd scan))\<rparr>"

section \<open>Two concrete environments\<close>

text \<open>
  An environment where every collaborator call succeeds, and one where nothing can open
  a URL, so that every Promise of \<^verbatim>\<open>Linking.openURL\<close> rejects; the clock readings
  play no part in dispatch.
\<close>

definition calmEnv :: env where
  "calmEnv = \<lparr>openURL_rejects = (\<lambda>url. False), navigate_throws = (\<lambda>screen. False),
     dateNow = 0, localeString = []\<rparr>"

definition noHandlerEnv :: env where
  "noHandlerEnv = \<lparr>openURL_rejects = (\<lambda>url. True), navigate_throws = (\<lambda>screen. False),
     dateNow = 0, localeString = []\<rparr>"

section \<open>Notions of the specification\<close>

text \<open>
  The specification speaks of a string that begins with a prefix case-insensitively, and
  the classifier's pattern asks in addition for a URL body: at least one more code unit,
  the first of which is not a line terminator. The eight content types are the labels
  \<open>identifyDataType\<close> can return.
\<close>

definition beginsIgnoringCase :: "jsstring \<Rightarrow> jsstring \<Rightarrow> bool" where
  "beginsIgnoringCase s p = prefix (map canonicalize p) (map canonicalize s)"

definition urlBody :: "jsstring \<Rightarrow> bool" where
  "urlBody r = (case r of [] \<Rightarrow> False | c # cs \<Rightarrow> \<not> lineTerminator c)"

text \<open>
  The specification's "substring following" a separator, read as it stands: everything
  behind the first occurrence.
\<close>

definition substringAfter :: "jsstring \<Rightarrow> jsstring \<Rightarrow> jsstring" where
  "substringAfter s sep = (case cut s sep of None \<Rightarrow> [] | Some (b, a) \<Rightarrow> a)"

definition contentTypes :: "string list" where
  "contentTypes =
     [''Website'', ''Phone'', ''SMS'', ''Email'', ''Contact vCard'', ''Calendar'',
      ''App deep link'', ''Text'']"

section \<open>String primitives and the pattern\<close>

lemma startsWith_prefix: "startsWith s p = prefix p s"
  by (induction s p rule: startsWith.induct) auto

lemma includes_str_sublist: "includes_str s p = sublist p s"
  by (induction s) (auto simp: startsWith_prefix sublist_Cons_right)

lemma dot_plus: "matches ic ((Dot, OneOrMore) # []) s = urlBody s"
  by (cases s) (auto simp: urlBody_def)

lemma once_step:
  "matches ic ((a, Once) # r) s =
     (case s of [] \<Rightarrow> False | c # cs \<Rightarrow> atom_matches ic a c \<and> matches ic r cs)"
  by (cases s) auto

lemma opt_step:
  "matches ic ((a, Optional) # r) s =
     ((case s of [] \<Rightarrow> False | c # cs \<Rightarrow> atom_matches ic a c \<and> matches ic r cs) \<or>
      matches ic r s)"
  by (cases s) auto

lemma prefix_Cons_case:
  "prefix (p # ps) s = (case s of [] \<Rightarrow> False | c # cs \<Rightarrow> p = c \<and> prefix ps cs)"
  by (cases s) auto

lemma matches_website:
  "matches True websitePattern s =
     ((beginsIgnoringCase s (js ''http://'') \<and> urlBody (drop 7 s)) \<or>
      (beginsIgnoringCase s (js ''https://'') \<and> urlBody (drop 8 s)))"
  unfolding websitePattern_def beginsIgnoringCase_def js_def
  by (simp add: once_step opt_step dot_plus prefix_Cons_case split: list.splits) auto

lemma website_first_unit: "matches True websitePattern s \<Longrightarrow> \<exists>cs. s = 104 # cs \<or> s = 72 # cs"
  unfolding websitePattern_def
  by (cases s) (auto simp: canonicalize_def diff_eq_eq split: if_splits)

section \<open>The classifier\<close>

text \<open>
  C1, as the code has it. The rules apply in priority order, first match wins. Rule 1 is
  the pattern \<^verbatim>\<open>/^https?:\/\/.+/i\<close>: the string begins, case-insensitively, with
  \<^verbatim>\<open>http://\<close> or \<^verbatim>\<open>https://\<close> and goes on with a URL body (at least one more code
  unit, the first not a line terminator); then Website. Otherwise the case-sensitive
  prefixes \<^verbatim>\<open>tel:\<close>, \<^verbatim>\<open>sms:\<close>, \<^verbatim>\<open>mailto:\<close> give Phone, SMS, Email; otherwise
  \<^verbatim>\<open>BEGIN:VCARD\<close> at the start with \<^verbatim>\<open>END:VCARD\<close> somewhere gives the contact card,
  \<^verbatim>\<open>BEGIN:VEVENT\<close> with \<^verbatim>\<open>END:VEVENT\<close> the calendar event; otherwise the prefix
  \<^verbatim>\<open>qrcodeapp://\<close> gives the app deep link; everything else, the empty string
  included, is Text.
\<close>

theorem identifyDataType_priority:
  "type (identifyDataType s) =
     (if (beginsIgnoringCase s (js ''http://'') \<and> urlBody (drop 7 s)) \<or>
         (beginsIgnoringCase s (js ''https://'') \<and> urlBody (drop 8 s)) then ''Website''
      else if prefix (js ''tel:'') s then ''Phone''
      else if prefix (js ''sms:'') s then ''SMS''
      else if prefix (js ''mailto:'') s then ''Email''
      else if prefix (js ''BEGIN:VCARD'') s \<and> sublist (js ''END:VCARD'') s then ''Contact vCard''
      else if prefix (js ''BEGIN:VEVENT'') s \<and> sublist (js ''END:VEVENT'') s then ''Calendar''
      else if prefix (js ''qrcodeapp://'') s then ''App deep link''
      else ''Text'') \<and>
   type (identifyDataType []) = ''Text''"
proof
  show "type (identifyDataType []) = ''Text''"
    by (simp add: identifyDataType_def websitePattern_def js_def)
next
  have m: "matches True websitePattern s =
     ((beginsIgnoringCase s (js ''http://'') \<and> urlBody (drop 7 s)) \<or>
      (beginsIgnoringCase s (js ''https://'') \<and> urlBody (drop 8 s)))"
    by (rule matches_website)
  show "type (identifyDataType s) =
     (if (beginsIgnoringCase s (js ''http://'') \<and> urlBody (drop 7 s)) \<or>
         (beginsIgnoringCase s (js ''https://'') \<and> urlBody (drop 8 s)) then ''Website''
      else if prefix (js ''tel:'') s then ''Phone''
      else if prefix (js ''sms:'') s then ''SMS''
      else if prefix (js ''mailto:'') s then ''Email''
      else if prefix (js ''BEGIN:VCARD'') s \<and> sublist (js ''END:VCARD'') s then ''Contact vCard''
      else if prefix (js ''BEGIN:VEVENT'') s \<and> sublist (js ''END:VEVENT'') s then ''Calendar''
      else if prefix (js ''qrcodeapp://'') s then ''App deep link''
      else ''Text'')"
    unfolding identifyDataType_def m startsWith_prefix includes_str_sublist
    by simp
qed

text \<open>
  C1 as the specification states it fails: \<^verbatim>\<open>http://\<close> alone begins with
  \<^verbatim>\<open>http://\<close> and is classified Text, because the pattern's \<^verbatim>\<open>.+\<close> finds no body.
\<close>

theorem website_prefix_counterexample:
  "beginsIgnoringCase (js ''http://'') (js ''http://'') \<and>
   type (identifyDataType (js ''http://'')) = ''Text'' \<and>
   type (identifyDataType (js ''http://'')) \<noteq> ''Website''"
  by (simp add: beginsIgnoringCase_def identifyDataType_def websitePattern_def js_def
      canonicalize_def)

text \<open>
  C8: classification is total. For every string \<open>identifyDataType\<close> returns (its
  definition is a terminating recursion over the pattern and the string) and the type it
  returns is one of the eight content types, which are pairwise different labels.
\<close>

theorem identifyDataType_total:
  "type (identifyDataType s) \<in> set contentTypes \<and> distinct contentTypes \<and>
   length contentTypes = 8"
  by (simp add: identifyDataType_def contentTypes_def)

text \<open>
  C10: the app-only scanner accepts a string exactly when the classifier calls it an app
  deep link, and both come down to the prefix test \<^verbatim>\<open>startsWith('qrcodeapp://')\<close>: no
  rule of higher priority captures a string with that prefix.
\<close>

theorem validateAppQRCode_iff_app_deep_link:
  "isValid (validateAppQRCode s) = (type (identifyDataType s) = ''App deep link'') \<and>
   isValid (validateAppQRCode s) = startsWith s (js ''qrcodeapp://'')"
proof -
  have v: "isValid (validateAppQRCode s) = startsWith s (js ''qrcodeapp://'')"
    by (simp add: validateAppQRCode_def)
  have "type (identifyDataType s) = ''App deep link''"
    if q: "startsWith s (js ''qrcodeapp://'')"
  proof -
    from q obtain cs where s: "s = 113 # cs"
      by (cases s) (auto simp: js_def)
    then have "\<not> matches True websitePattern s"
      using website_first_unit [of s] by auto
    moreover from s have "\<not> startsWith s (js ''tel:'')" "\<not> startsWith s (js ''sms:'')"
      "\<not> startsWith s (js ''mailto:'')" "\<not> startsWith s (js ''BEGIN:VCARD'')"
      "\<not> startsWith s (js ''BEGIN:VEVENT'')"
      by (simp_all add: js_def)
    ultimately show ?thesis using q by (simp add: identifyDataType_def)
  qed
  moreover have "startsWith s (js ''qrcodeapp://'')"
    if "type (identifyDataType s) = ''App deep link''"
    using that by (simp add: identifyDataType_def split: if_splits)
  ultimately show ?thesis using v by blast
qed

section \<open>The dispatchers\<close>

lemma perform_effects:
  assumes "perform e call s = Inr s'"
  shows "\<exists>log rejections. s' = s\<lparr>effects := log, unhandledRejections := rejections\<rparr>"
proof -
  from assms have "s' = s\<lparr>effects := effects s', unhandledRejections := unhandledRejections s'\<rparr>"
    by (cases call) (auto split: if_splits)
  then show ?thesis by blast
qed

lemma handleDeepLinkNavigation_keeps:
  "isScanning (handleDeepLinkNavigation e d s) = isScanning s \<and>
   pendingResets (handleDeepLinkNavigation e d s) = pendingResets s \<and>
   scanHistory (handleDeepLinkNavigation e d s) = scanHistory s"
  unfolding handleDeepLinkNavigation_def
  by (auto split: option.splits sum.splits dest: perform_effects)

lemma executeAction_keeps:
  "isScanning (executeAction e d info s) = isScanning s \<and>
   pendingResets (executeAction e d info s) = pendingResets s \<and>
   scanHistory (executeAction e d info s) = scanHistory s"
  unfolding executeAction_def executeAction_try_def
  by (auto split: sum.splits if_splits simp: handleDeepLinkNavigation_keeps)

lemma handleAppDeepLinkNavigation_keeps:
  "isScanning (handleAppDeepLinkNavigation e d s) = isScanning s \<and>
   pendingResets (handleAppDeepLinkNavigation e d s) = pendingResets s \<and>
   appScanHistory (handleAppDeepLinkNavigation e d s) = appScanHistory s"
  unfolding handleAppDeepLinkNavigation_def
  by (auto split: sum.splits dest: perform_effects)

lemma handleScannedData_idle:
  "isScanning (handleScannedData e False d s)"
  "pendingResets (handleScannedData e False d s) = pendingResets s + 1"
  "scanHistory (handleScannedData e False d s) = historyItemOf (e, d) # take 49 (scanHistory s)"
  by (simp_all add: handleScannedData_def Let_def executeAction_keeps historyItemOf_def)

lemma handleAppOnlyScannedData_idle:
  "isScanning (handleAppOnlyScannedData e False d s)"
  "pendingResets (handleAppOnlyScannedData e False d s) = pendingResets s + 1"
  "appScanHistory (handleAppOnlyScannedData e False d s) =
     appHistoryItemOf (e, d) # take 49 (appScanHistory s)"
  by (simp_all add: handleAppOnlyScannedData_def Let_def handleAppDeepLinkNavigation_keeps
      appHistoryItemOf_def)

text \<open>
  A handler whose render saw \<open>isScanning\<close> set drops the event. This is the suppression
  the code has: it starts with the first re-render after a scan, not with the scan.
\<close>

lemma suppressed_render_drops:
  "handleScannedData e True d s = s"
  "handleAppOnlyScannedData e True d a = a"
  by (simp_all add: handleScannedData_def handleAppOnlyScannedData_def)

lemma resetTimerFires_idle: "0 < pendingResets s \<Longrightarrow> \<not> isScanning (resetTimerFires s)"
  by (simp add: resetTimerFires_def)

lemma resetTimerFires_history:
  "scanHistory (resetTimerFires s) = scanHistory s"
  "appScanHistory (resetTimerFires a) = appScanHistory a"
  by (simp_all add: resetTimerFires_def)

lemma take_cap: "take 50 (xs @ x # take 49 h) = take 50 (xs @ x # h)"
  by (simp add: take_Cons')

lemma spacedScans_history:
  "\<not> isScanning s \<Longrightarrow> length (scanHistory s) \<le> 50 \<Longrightarrow>
   scanHistory (spacedScans scans s) = take 50 (rev (map historyItemOf scans) @ scanHistory s)"
proof (induction scans arbitrary: s)
  case Nil
  then show ?case by simp
next
  case (Cons scan scans)
  obtain e d where scan: "scan = (e, d)" by (cases scan)
  let ?s1 = "resetTimerFires (handleScannedData e (isScanning s) d s)"
  have idle: "\<not> isScanning ?s1"
    using Cons.prems(1) by (simp add: resetTimerFires_idle handleScannedData_idle)
  have hist: "scanHistory ?s1 = historyItemOf (e, d) # take 49 (scanHistory s)"
    using Cons.prems(1) by (simp add: resetTimerFires_history handleScannedData_idle)
  then have "length (scanHistory ?s1) \<le> 50" by simp
  with idle have "scanHistory (spacedScans scans ?s1) =
      take 50 (rev (map historyItemOf scans) @ scanHistory ?s1)"
    by (rule Cons.IH)
  then have "scanHistory (spacedScans scans ?s1) =
      take 50 (rev (map historyItemOf scans) @ historyItemOf (e, d) # scanHistory s)"
    by (simp only: hist take_cap)
  then show ?case
    by (simp add: scan)
qed

lemma spacedAppScans_history:
  "\<not> isScanning s \<Longrightarrow> length (appScanHistory s) \<le> 50 \<Longrightarrow>
   appScanHistory (spacedAppScans scans s) =
     take 50 (rev (map appHistoryItemOf scans) @ appScanHistory s)"
proof (induction scans arbitrary: s)
  case Nil
  then show ?case by simp
next
  case (Cons scan scans)
  obtain e d where scan: "scan = (e, d)" by (cases scan)
  let ?s1 = "resetTimerFires (handleAppOnlyScannedData e (isScanning s) d s)"
  have idle: "\<not> isScanning ?s1"
    using Cons.prems(1) by (simp add: resetTimerFires_idle handleAppOnlyScannedData_idle)
  have hist: "appScanHistory ?s1 = appHistoryItemOf (e, d) # take 49 (appScanHistory s)"
    using Cons.prems(1) by (simp add: resetTimerFires_history handleAppOnlyScannedData_idle)
  then have "length (appScanHistory ?s1) \<le> 50" by simp
  with idle have "appScanHistory (spacedAppScans scans ?s1) =
      take 50 (rev (map appHistoryItemOf scans) @ appScanHistory ?s1)"
    by (rule Cons.IH)
  then have "appScanHistory (spacedAppScans scans ?s1) =
      take 50 (rev (map appHistoryItemOf scans) @ appHistoryItemOf (e, d) # appScanHistory s)"
    by (simp only: hist take_cap)
  then show ?case
    by (simp add: scan)
qed

text \<open>
  C4 fails on the code. The guard of both handlers reads the constant \<^verbatim>\<open>isScanning\<close>
  of the render that created the handler, and \<^verbatim>\<open>setIsScanning(true)\<close> does not change
  that constant. Two decode events delivered to the handler of one idle render, the
  second before the screen has re-rendered and before the reset timer has run, are both
  handled: the cell \<open>isScanning\<close> is set after the first, a reset is pending, and yet
  the second payload is classified, added to the history and opened.
\<close>

theorem second_scan_before_rerender_handled:
  "isScanning (handleScannedData calmEnv False (js ''tel:1'') initialState) \<and>
   pendingResets (handleScannedData calmEnv False (js ''tel:1'') initialState) = 1 \<and>
   map item_data
     (scanHistory
       (handleScannedData calmEnv False (js ''tel:2'')
         (handleScannedData calmEnv False (js ''tel:1'') initialState))) =
     [js ''tel:2'', js ''tel:1''] \<and>
   effects
     (handleScannedData calmEnv False (js ''tel:2'')
       (handleScannedData calmEnv False (js ''tel:1'') initialState)) =
     [OpenURL (js ''tel:1''), OpenURL (js ''tel:2'')] \<and>
   isScanning (handleAppOnlyScannedData calmEnv False (js ''tel:1'') initialAppState) \<and>
   map item_data
     (appScanHistory
       (handleAppOnlyScannedData calmEnv False (js ''tel:2'')
         (handleAppOnlyScannedData calmEnv False (js ''tel:1'') initialAppState))) =
     [js ''tel:2'', js ''tel:1'']"
  by code_simp

text \<open>
  C5: each history is newest-first and capped at 50. Starting from the empty history, a
  run of scans spaced wider than the suppression window leaves the items of the last 50
  scans, newest first; after 60 such scans the length is exactly 50 and the items are
  those of scans 11 to 60 in reverse. One insertion, by the handler of an idle render,
  puts the new item first; at 50 items it drops the oldest (the last) one.
\<close>

theorem history_capped_at_50:
  "scanHistory (spacedScans scans initialState) = take 50 (rev (map historyItemOf scans)) \<and>
   appScanHistory (spacedAppScans scans initialAppState) =
     take 50 (rev (map appHistoryItemOf scans)) \<and>
   (length scans = 60 \<longrightarrow>
      length (scanHistory (spacedScans scans initialState)) = 50 \<and>
      scanHistory (spacedScans scans initialState) = rev (map historyItemOf (drop 10 scans)) \<and>
      length (appScanHistory (spacedAppScans scans initialAppState)) = 50 \<and>
      appScanHistory (spacedAppScans scans initialAppState) =
        rev (map appHistoryItemOf (drop 10 scans))) \<and>
   scanHistory (handleScannedData e False d s) =
     historyItemOf (e, d) #
       (if length (scanHistory s) < 50 then scanHistory s else take 49 (scanHistory s)) \<and>
   appScanHistory (handleAppOnlyScannedData e False d a) =
     appHistoryItemOf (e, d) #
       (if length (appScanHistory a) < 50 then appScanHistory a
        else take 49 (appScanHistory a)) \<and>
   (length (scanHistory s) = 50 \<longrightarrow>
      scanHistory (handleScannedData e False d s) =
        historyItemOf (e, d) # butlast (scanHistory s)) \<and>
   (length (appScanHistory a) = 50 \<longrightarrow>
      appScanHistory (handleAppOnlyScannedData e False d a) =
        appHistoryItemOf (e, d) # butlast (appScanHistory a))"
proof -
  have g: "scanHistory (spacedScans scans initialState) = take 50 (rev (map historyItemOf scans))"
    using spacedScans_history [of initialState scans] by (simp add: initialState_def)
  have r: "appScanHistory (spacedAppScans scans initialAppState) =
      take 50 (rev (map appHistoryItemOf scans))"
    using spacedAppScans_history [of initialAppState scans] by (simp add: initialAppState_def)
  have recent: "take 50 (rev (map f scans)) = rev (map f (drop 10 scans))"
    if "length scans = 60" for f :: "env \<times> jsstring \<Rightarrow> 'b"
    using that by (simp add: take_rev drop_map)
  have sixty: "length (take 50 (rev (map f scans))) = 50"
    if "length scans = 60" for f :: "env \<times> jsstring \<Rightarrow> 'b"
    using that by simp
  have oldest: "take 49 h = butlast h" if "length h = 50" for h :: "'c list"
    using that by (simp add: butlast_conv_take)
  show ?thesis
    by (simp add: g r recent sixty oldest handleScannedData_idle handleAppOnlyScannedData_idle)
qed

theorem history_capped_at_50_witness:
  "length (replicate 60 (calmEnv, js ''tel:1'')) = 60 \<and>
   length (scanHistory (spacedScans (replicate 60 (calmEnv, js ''tel:1'')) initialState)) = 50 \<and>
   length (appScanHistory (spacedAppScans (replicate 60 (calmEnv, js ''tel:1'')) initialAppState)) = 50 \<and>
   \<not> isScanning initialState \<and> \<not> isScanning initialAppState \<and>
   scanHistory (handleScannedData calmEnv False (js ''tel:1'') initialState) =
     [historyItemOf (calmEnv, js ''tel:1'')] \<and>
   appScanHistory (handleAppOnlyScannedData calmEnv False (js ''tel:1'') initialAppState) =
     [appHistoryItemOf (calmEnv, js ''tel:1'')]"
proof -
  have i: "\<not> isScanning initialState" "\<not> isScanning initialAppState"
    "scanHistory initialState = []" "appScanHistory initialAppState = []"
    by (simp_all add: initialState_def initialAppState_def)
  show ?thesis
    using i history_capped_at_50 [of "replicate 60 (calmEnv, js ''tel:1'')" calmEnv
        "js ''tel:1''" initialState initialAppState]
    by simp
qed

text \<open>
  C9: \<open>restartCamera\<close> of either screen can be called in any state, with or without a
  reset timer pending, and leaves \<open>isScanning\<close> false; a second call right after the
  first changes nothing but the camera key, which counts the restarts. A reset timer
  still pending at the restart stays scheduled, and its later run keeps the screen idle.
\<close>

theorem restart_idempotent:
  "\<not> isScanning (restartCamera s) \<and>
   \<not> isScanning (restartCamera (restartCamera s)) \<and>
   restartCamera (restartCamera s) =
     (restartCamera s)\<lparr>cameraKey := cameraKey (restartCamera (restartCamera s))\<rparr> \<and>
   pendingResets (restartCamera s) = pendingResets s \<and>
   \<not> isScanning (resetTimerFires (restartCamera s)) \<and>
   \<not> isScanning (restartCamera (resetTimerFires (restartCamera s)))"
  by (simp add: restartCamera_def resetTimerFires_def)

lemma handleAppOnlyScannedData_rejects:
  assumes "\<not> startsWith d (js ''qrcodeapp://'')"
  shows "handleAppOnlyScannedData e False d a =
     a\<lparr>isScanning := True,
       appScanHistory :=
         \<lparr>item_id = dateNow e, item_data = d, item_type = ''External/Invalid'',
          item_timestamp = localeString e, item_isValid = False\<rparr> # take 49 (appScanHistory a),
       showResultPage := True,
       currentScannedData :=
         Some \<lparr>data = d,
               dataInfo = \<lparr>type = ''Rejected'', action = js ''This QR code is not app-related'',
                           isValid = False\<rparr>\<rparr>,
       pendingResets := pendingResets a + 1\<rparr>"
  using assms by (simp add: handleAppOnlyScannedData_def validateAppQRCode_def)

lemma handleAppOnlyScannedData_accepts:
  assumes "startsWith d (js ''qrcodeapp://'')"
  shows "handleAppOnlyScannedData e False d a =
     (handleAppDeepLinkNavigation e d
        (a\<lparr>isScanning := True,
           appScanHistory :=
             \<lparr>item_id = dateNow e, item_data = d, item_type = ''App Deep Link'',
              item_timestamp = localeString e, item_isValid = True\<rparr> #
             take 49 (appScanHistory a)\<rparr>))
     \<lparr>pendingResets := pendingResets a + 1\<rparr>"
  using assms
  by (simp add: handleAppOnlyScannedData_def validateAppQRCode_def
      handleAppDeepLinkNavigation_keeps)

lemma handleAppDeepLinkNavigation_navigates:
  assumes "appDeepLinkTarget d = Inr (Navigate screen params)" and "\<not> navigate_throws e screen"
  shows "handleAppDeepLinkNavigation e d a = a\<lparr>effects := effects a @ [Navigate screen params]\<rparr>"
  using assms by (simp add: handleAppDeepLinkNavigation_def)

text \<open>
  C6: the app-only handler of an idle render (its \<^verbatim>\<open>isScanning\<close> is false), in any
  state of the cells. A payload that does not start with
  \<^verbatim>\<open>qrcodeapp://\<close> is rejected: the result page shows it with the type Rejected and
  the fixed reason, no collaborator is called, and the history gets an item with
  \<open>item_isValid = False\<close>. A payload with the prefix gets the deep-link handling of
  \<open>handleAppDeepLinkNavigation\<close> and a history item with \<open>item_isValid = True\<close>; when
  its target is a screen and the router accepts the call, that navigation is the one
  call made.
\<close>

theorem app_only_gate:
  "(\<not> startsWith d (js ''qrcodeapp://'') \<longrightarrow>
      showResultPage (handleAppOnlyScannedData e False d a) \<and>
      currentScannedData (handleAppOnlyScannedData e False d a) =
        Some \<lparr>data = d,
              dataInfo = \<lparr>type = ''Rejected'', action = js ''This QR code is not app-related'',
                          isValid = False\<rparr>\<rparr> \<and>
      effects (handleAppOnlyScannedData e False d a) = effects a \<and>
      appScanHistory (handleAppOnlyScannedData e False d a) =
        \<lparr>item_id = dateNow e, item_data = d, item_type = ''External/Invalid'',
         item_timestamp = localeString e, item_isValid = False\<rparr> # take 49 (appScanHistory a)) \<and>
   (startsWith d (js ''qrcodeapp://'') \<longrightarrow>
      handleAppOnlyScannedData e False d a =
        (handleAppDeepLinkNavigation e d
           (a\<lparr>isScanning := True,
              appScanHistory :=
                \<lparr>item_id = dateNow e, item_data = d, item_type = ''App Deep Link'',
                 item_timestamp = localeString e, item_isValid = True\<rparr> #
                take 49 (appScanHistory a)\<rparr>))
        \<lparr>pendingResets := pendingResets a + 1\<rparr> \<and>
      appScanHistory (handleAppOnlyScannedData e False d a) =
        \<lparr>item_id = dateNow e, item_data = d, item_type = ''App Deep Link'',
         item_timestamp = localeString e, item_isValid = True\<rparr> # take 49 (appScanHistory a)) \<and>
   (startsWith d (js ''qrcodeapp://'') \<and>
    appDeepLinkTarget d = Inr (Navigate screen params) \<and> \<not> navigate_throws e screen \<longrightarrow>
      effects (handleAppOnlyScannedData e False d a) = effects a @ [Navigate screen params] \<and>
      showResultPage (handleAppOnlyScannedData e False d a) = showResultPage a)"
proof (intro conjI impI)
  assume h: "\<not> startsWith d (js ''qrcodeapp://'')"
  then have eq: "handleAppOnlyScannedData e False d a =
     a\<lparr>isScanning := True,
       appScanHistory :=
         \<lparr>item_id = dateNow e, item_data = d, item_type = ''External/Invalid'',
          item_timestamp = localeString e, item_isValid = False\<rparr> # take 49 (appScanHistory a),
       showResultPage := True,
       currentScannedData :=
         Some \<lparr>data = d,
               dataInfo = \<lparr>type = ''Rejected'', action = js ''This QR code is not app-related'',
                           isValid = False\<rparr>\<rparr>,
       pendingResets := pendingResets a + 1\<rparr>"
    by (simp add: handleAppOnlyScannedData_rejects)
  show "showResultPage (handleAppOnlyScannedData e False d a)"
    by (simp add: eq)
  show "currentScannedData (handleAppOnlyScannedData e False d a) =
        Some \<lparr>data = d,
              dataInfo = \<lparr>type = ''Rejected'', action = js ''This QR code is not app-related'',
                          isValid = False\<rparr>\<rparr>"
    by (simp add: eq)
  show "effects (handleAppOnlyScannedData e False d a) = effects a"
    by (simp add: eq)
  show "appScanHistory (handleAppOnlyScannedData e False d a) =
        \<lparr>item_id = dateNow e, item_data = d, item_type = ''External/Invalid'',
         item_timestamp = localeString e, item_isValid = False\<rparr> # take 49 (appScanHistory a)"
    by (simp add: eq)
next
  assume h: "startsWith d (js ''qrcodeapp://'')"
  then show "handleAppOnlyScannedData e False d a =
        (handleAppDeepLinkNavigation e d
           (a\<lparr>isScanning := True,
              appScanHistory :=
                \<lparr>item_id = dateNow e, item_data = d, item_type = ''App Deep Link'',
                 item_timestamp = localeString e, item_isValid = True\<rparr> #
                take 49 (appScanHistory a)\<rparr>))
        \<lparr>pendingResets := pendingResets a + 1\<rparr>"
    by (simp add: handleAppOnlyScannedData_accepts)
  from h show "appScanHistory (handleAppOnlyScannedData e False d a) =
        \<lparr>item_id = dateNow e, item_data = d, item_type = ''App Deep Link'',
         item_timestamp = localeString e, item_isValid = True\<rparr> # take 49 (appScanHistory a)"
    by (simp add: handleAppOnlyScannedData_idle appHistoryItemOf_def validateAppQRCode_def)
next
  assume h: "startsWith d (js ''qrcodeapp://'') \<and>
    appDeepLinkTarget d = Inr (Navigate screen params) \<and> \<not> navigate_throws e screen"
  then show "effects (handleAppOnlyScannedData e False d a) = effects a @ [Navigate screen params]"
    by (simp add: handleAppOnlyScannedData_accepts handleAppDeepLinkNavigation_navigates)
  from h show "showResultPage (handleAppOnlyScannedData e False d a) = showResultPage a"
    by (simp add: handleAppOnlyScannedData_accepts handleAppDeepLinkNavigation_navigates)
qed

lemma home_target: "appDeepLinkTarget (js ''qrcodeapp://home'') = Inr (Navigate ''Home'' [])"
  by code_simp

theorem app_only_gate_witness:
  "\<not> isScanning initialAppState \<and>
   \<not> startsWith (js ''https://example.com'') (js ''qrcodeapp://'') \<and>
   startsWith (js ''qrcodeapp://home'') (js ''qrcodeapp://'') \<and>
   appDeepLinkTarget (js ''qrcodeapp://home'') = Inr (Navigate ''Home'' []) \<and>
   \<not> navigate_throws calmEnv ''Home'' \<and>
   showResultPage (handleAppOnlyScannedData calmEnv False (js ''https://example.com'') initialAppState) \<and>
   map_option (type \<circ> dataInfo)
     (currentScannedData
       (handleAppOnlyScannedData calmEnv False (js ''https://example.com'') initialAppState)) =
     Some ''Rejected'' \<and>
   map item_isValid
     (appScanHistory
       (handleAppOnlyScannedData calmEnv False (js ''https://example.com'') initialAppState)) = [False] \<and>
   effects (handleAppOnlyScannedData calmEnv False (js ''qrcodeapp://home'') initialAppState) =
     [Navigate ''Home'' []] \<and>
   map item_isValid
     (appScanHistory (handleAppOnlyScannedData calmEnv False (js ''qrcodeapp://home'') initialAppState)) =
     [True]"
proof -
  have i: "\<not> isScanning initialAppState" "effects initialAppState = []"
    "appScanHistory initialAppState = []"
    by (simp_all add: initialAppState_def)
  have p: "\<not> startsWith (js ''https://example.com'') (js ''qrcodeapp://'')"
    "startsWith (js ''qrcodeapp://home'') (js ''qrcodeapp://'')"
    by (simp_all add: js_def)
  have c: "\<not> navigate_throws calmEnv ''Home''"
    by (simp add: calmEnv_def)
  let ?r = "handleAppOnlyScannedData calmEnv False (js ''https://example.com'') initialAppState"
  let ?n = "handleAppOnlyScannedData calmEnv False (js ''qrcodeapp://home'') initialAppState"
  have rejected: "showResultPage ?r \<and>
      currentScannedData ?r =
        Some \<lparr>data = js ''https://example.com'',
              dataInfo = \<lparr>type = ''Rejected'', action = js ''This QR code is not app-related'',
                          isValid = False\<rparr>\<rparr> \<and>
      appScanHistory ?r =
        \<lparr>item_id = dateNow calmEnv, item_data = js ''https://example.com'',
         item_type = ''External/Invalid'', item_timestamp = localeString calmEnv,
         item_isValid = False\<rparr> # take 49 (appScanHistory initialAppState)"
    using i(1) p(1) app_only_gate [of "js ''https://example.com''" calmEnv initialAppState]
    by blast
  have navigated: "effects ?n = effects initialAppState @ [Navigate ''Home'' []] \<and>
      appScanHistory ?n =
        \<lparr>item_id = dateNow calmEnv, item_data = js ''qrcodeapp://home'',
         item_type = ''App Deep Link'', item_timestamp = localeString calmEnv,
         item_isValid = True\<rparr> # take 49 (appScanHistory initialAppState)"
    using i(1) p(2) c home_target
      app_only_gate [of "js ''qrcodeapp://home''" calmEnv initialAppState "''Home''" "[]"]
    by blast
  show ?thesis
    using i p c home_target by (simp add: rejected navigated)
qed

lemma openURL_scan_state:
  assumes "type (identifyDataType d) \<in> {''Website'', ''Phone'', ''SMS'', ''Email''}"
  shows "handleScannedData e False d s =
     s\<lparr>isScanning := True,
       scanHistory := historyItemOf (e, d) # take 49 (scanHistory s),
       effects := effects s @ [OpenURL d],
       unhandledRejections :=
         (if openURL_rejects e d then unhandledRejections s @ [d] else unhandledRejections s),
       pendingResets := pendingResets s + 1\<rparr>"
proof -
  from assms have auto_type: "type (identifyDataType d) = ''Website'' \<or>
      type (identifyDataType d) = ''Phone'' \<or> type (identifyDataType d) = ''SMS'' \<or>
      type (identifyDataType d) = ''Email'' \<or> type (identifyDataType d) = ''App deep link''"
    by auto
  from assms have run: "executeAction e d (identifyDataType d) s' =
      s'\<lparr>effects := effects s' @ [OpenURL d],
         unhandledRejections :=
           (if openURL_rejects e d then unhandledRejections s' @ [d]
            else unhandledRejections s')\<rparr>"
    for s' :: scanner_state
    by (auto simp: executeAction_def executeAction_try_def)
  show ?thesis
    unfolding handleScannedData_def Let_def
    by (simp only: auto_type if_True if_False run historyItemOf_def fst_conv snd_conv) simp
qed

lemma tel_type: "type (identifyDataType (js ''tel:123'')) = ''Phone''"
  by code_simp

text \<open>
  C7 fails on the code. When nothing can open the URL, \<^verbatim>\<open>Linking.openURL\<close> does not
  throw: the Promise it returns rejects. \<open>executeAction\<close> neither awaits that Promise nor
  attaches a handler, so its \<^verbatim>\<open>catch\<close> does not run: for \<^verbatim>\<open>tel:123\<close> scanned while
  idle the result page is not shown, no Error classification is stored, and the rejection
  stays unhandled. The reset timer is scheduled all the same.
\<close>

theorem rejected_openURL_not_presented:
  "type (identifyDataType (js ''tel:123'')) = ''Phone'' \<and>
   openURL_rejects noHandlerEnv (js ''tel:123'') \<and>
   \<not> showResultPage (handleScannedData noHandlerEnv False (js ''tel:123'') initialState) \<and>
   currentScannedData (handleScannedData noHandlerEnv False (js ''tel:123'') initialState) = None \<and>
   effects (handleScannedData noHandlerEnv False (js ''tel:123'') initialState) =
     [OpenURL (js ''tel:123'')] \<and>
   unhandledRejections (handleScannedData noHandlerEnv False (js ''tel:123'') initialState) =
     [js ''tel:123''] \<and>
   pendingResets (handleScannedData noHandlerEnv False (js ''tel:123'') initialState) = 1"
proof -
  have t: "type (identifyDataType (js ''tel:123'')) \<in> {''Website'', ''Phone'', ''SMS'', ''Email''}"
    by (simp add: tel_type)
  have r: "openURL_rejects noHandlerEnv (js ''tel:123'')"
    by (simp add: noHandlerEnv_def)
  show ?thesis
    by (simp add: openURL_scan_state [OF t] tel_type r initialState_def)
qed

section \<open>The deep-link resolver\<close>

lemma cut_None: "cut s sep = None \<longleftrightarrow> \<not> includes_str s sep"
  by (induction s) (auto simp: startsWith_prefix split: option.splits)

lemma startsWith_append_fits:
  "length p \<le> length x \<Longrightarrow> startsWith (x @ y) p = startsWith x p"
  by (auto simp: startsWith_prefix prefix_append prefix_length_le)

lemma cut_first:
  "sep \<noteq> [] \<Longrightarrow> \<not> includes_str (a @ butlast sep) sep \<Longrightarrow> cut (a @ sep @ b) sep = Some (a, b)"
proof (induction a)
  case Nil
  then show ?case
    by (cases sep) (auto simp: startsWith_prefix)
next
  case (Cons c a)
  have len: "length sep \<le> length ((c # a) @ butlast sep)"
    by simp
  have e: "(c # a) @ sep @ b = ((c # a) @ butlast sep) @ (last sep # b)"
    using Cons.prems(1) by (metis append.assoc append_Cons append_Nil append_butlast_last_id)
  from Cons.prems(2) have "\<not> startsWith ((c # a) @ butlast sep) sep"
    by simp
  then have "\<not> startsWith ((c # a) @ sep @ b) sep"
    unfolding e using startsWith_append_fits [OF len] by blast
  then have ns: "\<not> startsWith (c # a @ sep @ b) sep"
    by simp
  from Cons.prems have "cut (a @ sep @ b) sep = Some (a, b)"
    by (intro Cons.IH) auto
  with ns show ?case by simp
qed

lemma split_none: "sep \<noteq> [] \<Longrightarrow> \<not> includes_str s sep \<Longrightarrow> split s sep = [s]"
  using cut_None [of s sep] by (simp add: split.simps)

lemma split_first:
  "sep \<noteq> [] \<Longrightarrow> \<not> includes_str (a @ butlast sep) sep \<Longrightarrow>
   split (a @ sep @ b) sep = a # split b sep"
  using cut_first [of sep a b] by (simp add: split.simps [of "a @ sep @ b"])

lemma includes_str_tail_last:
  assumes "p \<noteq> []" and "last p \<notin> set t" and "includes_str (a @ t) p"
  shows "includes_str a p"
proof -
  from assms(3) obtain u v where "a @ t = (u @ p) @ v"
    by (auto simp: includes_str_sublist sublist_def)
  then obtain w where w: "(a = (u @ p) @ w \<and> w @ t = v) \<or> (a @ w = u @ p \<and> t = w @ v)"
    unfolding append_eq_append_conv2 by blast
  then have "sublist p a"
  proof
    assume "a = (u @ p) @ w \<and> w @ t = v"
    then have "a = u @ p @ w" by simp
    then show ?thesis unfolding sublist_def by blast
  next
    assume r: "a @ w = u @ p \<and> t = w @ v"
    show ?thesis
    proof (cases "w = []")
      case True
      with r have "a = u @ p @ []" by simp
      then show ?thesis unfolding sublist_def by blast
    next
      case False
      then have "last w = last (a @ w)" by simp
      also have "\<dots> = last p" using r assms(1) by simp
      finally have "last w = last p" .
      moreover have "last w \<in> set w" using False by (rule last_in_set)
      ultimately have "last p \<in> set t" using r by simp
      with assms(2) show ?thesis by simp
    qed
  qed
  then show ?thesis by (simp add: includes_str_sublist)
qed

lemma no_user_across:
  "\<not> includes_str a (js ''user/'') \<Longrightarrow>
   \<not> includes_str (a @ butlast (js ''user/'')) (js ''user/'')"
  using includes_str_tail_last [of "js ''user/''" "butlast (js ''user/'')" a]
  by (auto simp: js_def)

lemma user_segment:
  assumes "\<not> includes_str a (js ''user/'')" and "\<not> includes_str seg (js ''user/'')"
    and "rest = [] \<or> startsWith rest (js ''user/'')"
  shows "at (split (a @ js ''user/'' @ seg @ rest) (js ''user/'')) 1 = Some seg"
proof -
  have ne: "js ''user/'' \<noteq> []" by (simp add: js_def)
  have "split (a @ js ''user/'' @ seg @ rest) (js ''user/'') =
      a # split (seg @ rest) (js ''user/'')"
    using ne assms(1) by (simp add: split_first no_user_across)
  moreover have "\<exists>more. split (seg @ rest) (js ''user/'') = seg # more"
  proof (cases "rest = []")
    case True
    then show ?thesis using ne assms(2) by (simp add: split_none)
  next
    case False
    with assms(3) obtain r where "rest = js ''user/'' @ r"
      by (auto simp: startsWith_prefix prefix_def)
    then show ?thesis using ne assms(2) by (simp add: split_first no_user_across)
  qed
  ultimately show ?thesis by auto
qed

lemma scheme_split: "js ''qrcodeapp://'' @ p = js ''qrcodeapp'' @ js ''://'' @ p"
  by (simp add: js_def)

lemma scheme_first:
  "\<not> includes_str (js ''qrcodeapp'' @ butlast (js ''://'')) (js ''://'')" "js ''://'' \<noteq> []"
  by (simp_all add: js_def)

lemma deepLinkPath_single:
  assumes "\<not> includes_str p (js ''://'')"
  shows "deepLinkPath (js ''qrcodeapp://'' @ p) = p"
proof -
  have "split (js ''qrcodeapp://'' @ p) (js ''://'') = [js ''qrcodeapp'', p]"
    unfolding scheme_split using assms scheme_first by (simp add: split_first split_none)
  moreover have "includes_str (js ''qrcodeapp://'' @ p) (js ''://'')"
    unfolding scheme_split includes_str_sublist by (rule sublist_appendI)
  ultimately show ?thesis by (simp add: deepLinkPath_def)
qed

lemma deepLinkPath_double:
  assumes "\<not> includes_str (p @ js '':/'') (js ''://'')"
  shows "deepLinkPath (js ''qrcodeapp://'' @ p @ js ''://'' @ r) = p"
proof -
  have b: "butlast (js ''://'') = js '':/''"
    by (simp add: js_def)
  have "split (js ''qrcodeapp://'' @ p @ js ''://'' @ r) (js ''://'') =
      js ''qrcodeapp'' # p # split r (js ''://'')"
    unfolding scheme_split using assms scheme_first by (simp add: split_first b)
  moreover have "includes_str (js ''qrcodeapp://'' @ p @ js ''://'' @ r) (js ''://'')"
    unfolding scheme_split includes_str_sublist by (rule sublist_appendI)
  ultimately show ?thesis by (simp add: deepLinkPath_def)
qed

text \<open>
  C2, as the code has it. \<^verbatim>\<open>x.split(sep)[1]\<close> is the piece between the first and the
  second occurrence of the separator. So the path of a deep link is what stands between
  its first \<^verbatim>\<open>://\<close> and the next one (or the end), and for a path that contains
  \<^verbatim>\<open>user/\<close> the user id is what stands between the first \<^verbatim>\<open>user/\<close> and the next
  one (or the end of the path): a non-empty id goes to UserDetail with that id, an empty
  one to Users. A path with none of the six patterns goes to Home.
\<close>

theorem deepLinkTarget_resolution:
  "(deepLinkPath url = a @ js ''user/'' @ seg @ rest \<and> \<not> includes_str a (js ''user/'') \<and>
    \<not> includes_str seg (js ''user/'') \<and> (rest = [] \<or> startsWith rest (js ''user/'')) \<longrightarrow>
      deepLinkTarget url =
        Some (if seg = [] then Navigate ''Users'' []
              else Navigate ''UserDetail'' [(''id'', seg)])) \<and>
   (\<not> includes_str (deepLinkPath url) (js ''user/'') \<and>
    \<not> includes_str (deepLinkPath url) (js ''users'') \<and>
    \<not> includes_str (deepLinkPath url) (js ''scanner'') \<and>
    \<not> includes_str (deepLinkPath url) (js ''home'') \<and>
    \<not> includes_str (deepLinkPath url) (js ''profile'') \<and>
    \<not> includes_str (deepLinkPath url) (js ''dashboard'') \<longrightarrow>
      deepLinkTarget url = Some (Navigate ''Home'' [])) \<and>
   (\<not> includes_str p (js ''://'') \<longrightarrow> deepLinkPath (js ''qrcodeapp://'' @ p) = p) \<and>
   (\<not> includes_str (p @ js '':/'') (js ''://'') \<longrightarrow>
      deepLinkPath (js ''qrcodeapp://'' @ p @ js ''://'' @ r) = p)"
proof (intro conjI impI)
  assume h: "deepLinkPath url = a @ js ''user/'' @ seg @ rest \<and>
    \<not> includes_str a (js ''user/'') \<and> \<not> includes_str seg (js ''user/'') \<and>
    (rest = [] \<or> startsWith rest (js ''user/''))"
  then have path: "deepLinkPath url = a @ js ''user/'' @ seg @ rest" by blast
  have "includes_str (deepLinkPath url) (js ''user/'')"
    unfolding path includes_str_sublist by (rule sublist_appendI)
  moreover have "at (split (deepLinkPath url) (js ''user/'')) 1 = Some seg"
    unfolding path using h by (intro user_segment) blast+
  ultimately show "deepLinkTarget url =
        Some (if seg = [] then Navigate ''Users'' []
              else Navigate ''UserDetail'' [(''id'', seg)])"
    by (simp add: deepLinkTarget_def)
next
  assume "\<not> includes_str (deepLinkPath url) (js ''user/'') \<and>
    \<not> includes_str (deepLinkPath url) (js ''users'') \<and>
    \<not> includes_str (deepLinkPath url) (js ''scanner'') \<and>
    \<not> includes_str (deepLinkPath url) (js ''home'') \<and>
    \<not> includes_str (deepLinkPath url) (js ''profile'') \<and>
    \<not> includes_str (deepLinkPath url) (js ''dashboard'')"
  then show "deepLinkTarget url = Some (Navigate ''Home'' [])"
    by (simp add: deepLinkTarget_def)
next
  assume "\<not> includes_str p (js ''://'')"
  then show "deepLinkPath (js ''qrcodeapp://'' @ p) = p"
    by (rule deepLinkPath_single)
next
  assume "\<not> includes_str (p @ js '':/'') (js ''://'')"
  then show "deepLinkPath (js ''qrcodeapp://'' @ p @ js ''://'' @ r) = p"
    by (rule deepLinkPath_double)
qed

theorem deepLinkTarget_resolution_witness:
  "deepLinkTarget (js ''qrcodeapp://user/42'') = Some (Navigate ''UserDetail'' [(''id'', js ''42'')]) \<and>
   deepLinkTarget (js ''qrcodeapp://user/'') = Some (Navigate ''Users'' []) \<and>
   deepLinkTarget (js ''qrcodeapp://unknownpath'') = Some (Navigate ''Home'' []) \<and>
   deepLinkTarget (js ''qrcodeapp://user/1/user/2'') =
     Some (Navigate ''UserDetail'' [(''id'', js ''1/'')]) \<and>
   deepLinkPath (js ''qrcodeapp://'' @ js ''user/42'') = js ''user/42'' \<and>
   deepLinkPath (js ''qrcodeapp://'' @ js ''x'' @ js ''://'' @ js ''user/5'') = js ''x''"
proof -
  have paths:
    "deepLinkPath (js ''qrcodeapp://user/42'') = [] @ js ''user/'' @ js ''42'' @ []"
    "deepLinkPath (js ''qrcodeapp://user/'') = [] @ js ''user/'' @ [] @ []"
    "deepLinkPath (js ''qrcodeapp://user/1/user/2'') = [] @ js ''user/'' @ js ''1/'' @ js ''user/2''"
    by code_simp+
  have clean:
    "\<not> includes_str [] (js ''user/'')" "\<not> includes_str (js ''42'') (js ''user/'')"
    "\<not> includes_str (js ''1/'') (js ''user/'')" "startsWith (js ''user/2'') (js ''user/'')"
    "js ''42'' \<noteq> []" "js ''1/'' \<noteq> []"
    "\<not> includes_str (js ''user/42'') (js ''://'')"
    "\<not> includes_str (js ''x'' @ js '':/'') (js ''://'')"
    by (simp_all add: js_def)
  have unknown:
    "\<not> includes_str (deepLinkPath (js ''qrcodeapp://unknownpath'')) (js ''user/'')"
    "\<not> includes_str (deepLinkPath (js ''qrcodeapp://unknownpath'')) (js ''users'')"
    "\<not> includes_str (deepLinkPath (js ''qrcodeapp://unknownpath'')) (js ''scanner'')"
    "\<not> includes_str (deepLinkPath (js ''qrcodeapp://unknownpath'')) (js ''home'')"
    "\<not> includes_str (deepLinkPath (js ''qrcodeapp://unknownpath'')) (js ''profile'')"
    "\<not> includes_str (deepLinkPath (js ''qrcodeapp://unknownpath'')) (js ''dashboard'')"
    by code_simp+
  have u42: "deepLinkTarget (js ''qrcodeapp://user/42'') =
      Some (Navigate ''UserDetail'' [(''id'', js ''42'')])"
    using paths(1) clean
      deepLinkTarget_resolution [of "js ''qrcodeapp://user/42''" "[]" "js ''42''" "[]"]
    by simp
  have u0: "deepLinkTarget (js ''qrcodeapp://user/'') = Some (Navigate ''Users'' [])"
    using paths(2) clean
      deepLinkTarget_resolution [of "js ''qrcodeapp://user/''" "[]" "[]" "[]"]
    by simp
  have u12: "deepLinkTarget (js ''qrcodeapp://user/1/user/2'') =
      Some (Navigate ''UserDetail'' [(''id'', js ''1/'')])"
    using paths(3) clean
      deepLinkTarget_resolution [of "js ''qrcodeapp://user/1/user/2''" "[]" "js ''1/''"
        "js ''user/2''"]
    by simp
  have unk: "deepLinkTarget (js ''qrcodeapp://unknownpath'') = Some (Navigate ''Home'' [])"
    using unknown deepLinkTarget_resolution [of "js ''qrcodeapp://unknownpath''"]
    by blast
  have p1: "deepLinkPath (js ''qrcodeapp://'' @ js ''user/42'') = js ''user/42''"
    using clean(7) deepLinkTarget_resolution [of _ _ _ _ "js ''user/42''"] by blast
  have p2: "deepLinkPath (js ''qrcodeapp://'' @ js ''x'' @ js ''://'' @ js ''user/5'') = js ''x''"
    using clean(8) deepLinkTarget_resolution [of _ _ _ _ "js ''x''" "js ''user/5''"] by blast
  show ?thesis
    using u42 u0 u12 unk p1 p2 by simp
qed

text \<open>
  C2 as the specification states it fails on a path with two \<^verbatim>\<open>user/\<close>: the
  substring following the first one is \<^verbatim>\<open>1/user/2\<close>, the id passed on is \<^verbatim>\<open>1/\<close>.
\<close>

theorem user_id_counterexample:
  "includes_str (substringAfter (js ''qrcodeapp://user/1/user/2'') (js ''://'')) (js ''user/'') \<and>
   substringAfter (substringAfter (js ''qrcodeapp://user/1/user/2'') (js ''://'')) (js ''user/'') =
     js ''1/user/2'' \<and>
   deepLinkTarget (js ''qrcodeapp://user/1/user/2'') =
     Some (Navigate ''UserDetail'' [(''id'', js ''1/'')]) \<and>
   deepLinkTarget (js ''qrcodeapp://user/1/user/2'') \<noteq>
     Some (Navigate ''UserDetail'' [(''id'', js ''1/user/2'')])"
  by code_simp

text \<open>
  C3: the two deep-link handlers at \<^verbatim>\<open>qrcodeapp://profile\<close>, a payload both scanners
  accept as an app deep link. The general scanner navigates to Users, the app-only
  scanner, which has no profile branch, to Home. They also part on a link with a second
  \<^verbatim>\<open>://\<close>, since one splits at \<^verbatim>\<open>://\<close> and the other at \<^verbatim>\<open>qrcodeapp://\<close>.
\<close>

theorem profile_link_diverges:
  "isValid (validateAppQRCode (js ''qrcodeapp://profile'')) \<and>
   type (identifyDataType (js ''qrcodeapp://profile'')) = ''App deep link'' \<and>
   deepLinkTarget (js ''qrcodeapp://profile'') = Some (Navigate ''Users'' []) \<and>
   appDeepLinkTarget (js ''qrcodeapp://profile'') = Inr (Navigate ''Home'' []) \<and>
   effects (handleScannedData calmEnv False (js ''qrcodeapp://profile'') initialState) =
     [Navigate ''Users'' []] \<and>
   effects (handleAppOnlyScannedData calmEnv False (js ''qrcodeapp://profile'') initialAppState) =
     [Navigate ''Home'' []] \<and>
   deepLinkTarget (js ''qrcodeapp://x://users'') = Some (Navigate ''Home'' []) \<and>
   appDeepLinkTarget (js ''qrcodeapp://x://users'') = Inr (Navigate ''Users'' [])"
  by code_simp

end
